theory Spec2Isabelle
  imports Complex_Main
begin

section \<open>Data model (src/types/GameTypes.ts)\<close>

text \<open>
  JavaScript numbers are modelled as mathematical reals: rounding, infinities and NaN of
  IEEE doubles (and of the Float32Array storage used by gl-matrix and by the render
  engine's matrices) are outside this model. The fields \<open>x\<close>, \<open>y\<close>, \<open>z\<close>, \<open>w\<close> of the
  source's \<open>Vector3\<close> and \<open>Quaternion\<close> carry a prefix here, since a record field is a
  global constant; \<open>Mission.id\<close> and \<open>sensors.range\<close> are named \<open>missionId\<close> and
  \<open>sensorRange\<close>, since \<open>id\<close> and \<open>range\<close> are constants of HOL.
\<close>

record vector3 =
  vx :: real
  vy :: real
  vz :: real

record quaternion =
  qx :: real
  qy :: real
  qz :: real
  qw :: real

record transform =
  position :: vector3
  rotation :: quaternion
  scale :: vector3

record propulsion =
  plasmaRate :: real
  coilTemp :: real
  antiGravity :: real

record cloaking =
  active :: bool
  integrity :: real
  heat :: real

record sensors =
  active :: bool
  sensorRange :: real
  quantum :: bool

record systemStates =
  propulsion :: propulsion
  cloaking :: cloaking
  sensors :: sensors

datatype missionType = Atmospheric | DeepSpace | Hybrid

record mission =
  missionId :: string
  name :: string
  type :: missionType
  difficulty :: nat
  description :: string
  objectives :: "string list"
  environment :: string
  duration :: nat

section \<open>The gl-matrix operations used by the physics engine\<close>

text \<open>
  gl-matrix is a third-party dependency of the repository (imported in
  PhysicsEngine.ts). The four operations below follow the published gl-matrix 3.x
  sources: \<open>quat.fromEuler\<close> (angles in degrees, default order zyx), \<open>quat.multiply\<close>
  (the Hamilton product \<open>a * b\<close>), \<open>quat.normalize\<close> (which leaves a zero quaternion
  as it is) and \<open>vec3.transformQuat\<close>.
\<close>

definition quat_fromEuler :: "real \<Rightarrow> real \<Rightarrow> real \<Rightarrow> quaternion" where
  "quat_fromEuler ex ey ez =
     (let halfToRad = pi / 360;
          sx = sin (ex * halfToRad); cx = cos (ex * halfToRad);
          sy = sin (ey * halfToRad); cy = cos (ey * halfToRad);
          sz = sin (ez * halfToRad); cz = cos (ez * halfToRad)
      in \<lparr> qx = sx * cy * cz - cx * sy * sz,
           qy = cx * sy * cz + sx * cy * sz,
           qz = cx * cy * sz - sx * sy * cz,
           qw = cx * cy * cz + sx * sy * sz \<rparr>)"

definition quat_multiply :: "quaternion \<Rightarrow> quaternion \<Rightarrow> quaternion" where
  "quat_multiply a b =
     \<lparr> qx = qx a * qw b + qw a * qx b + qy a * qz b - qz a * qy b,
       qy = qy a * qw b + qw a * qy b + qz a * qx b - qx a * qz b,
       qz = qz a * qw b + qw a * qz b + qx a * qy b - qy a * qx b,
       qw = qw a * qw b - qx a * qx b - qy a * qy b - qz a * qz b \<rparr>"

definition quat_sqlen :: "quaternion \<Rightarrow> real" where
  "quat_sqlen a = qx a * qx a + qy a * qy a + qz a * qz a + qw a * qw a"

definition quat_normalize :: "quaternion \<Rightarrow> quaternion" where
  "quat_normalize a =
     (let len = quat_sqlen a;
          len' = (if len > 0 then 1 / sqrt len else len)
      in \<lparr> qx = qx a * len', qy = qy a * len', qz = qz a * len', qw = qw a * len' \<rparr>)"

definition vec3_transformQuat :: "vector3 \<Rightarrow> quaternion \<Rightarrow> vector3" where
  "vec3_transformQuat a q =
     (let uvx = qy q * vz a - qz q * vy a;
          uvy = qz q * vx a - qx q * vz a;
          uvz = qx q * vy a - qy q * vx a;
          uuvx = qy q * uvz - qz q * uvy;
          uuvy = qz q * uvx - qx q * uvz;
          uuvz = qx q * uvy - qy q * uvx;
          w2 = qw q * 2
      in \<lparr> vx = vx a + uvx * w2 + uuvx * 2,
           vy = vy a + uvy * w2 + uuvy * 2,
           vz = vz a + uvz * w2 + uuvz * 2 \<rparr>)"

text \<open>The Euclidean norm of a quaternion, the quantity the unit-length invariant bounds.\<close>

definition quat_norm :: "quaternion \<Rightarrow> real" where
  "quat_norm a = sqrt (quat_sqlen a)"

section \<open>PhysicsEngine (src/engine/PhysicsEngine.ts)\<close>

text \<open>
  A key of the \<open>ControlInput\<close> object literal is absent, present with the value
  \<open>undefined\<close> (the optional fields \<open>pitch?: number\<close> admit it), or present with a
  number.
\<close>

datatype optnum = Absent | Undefined | Num real

record controlInput =
  pitch :: optnum
  yaw :: optnum
  roll :: optnum
  thrust :: optnum

record physics =
  velocity :: vector3
  angularVelocity :: vector3
  lastControlInput :: controlInput

text \<open>The field initialisers of the class.\<close>

definition emptyInput :: controlInput where
  "emptyInput = \<lparr> pitch = Absent, yaw = Absent, roll = Absent, thrust = Absent \<rparr>"

definition zeroVector :: vector3 where
  "zeroVector = \<lparr> vx = 0, vy = 0, vz = 0 \<rparr>"

definition newPhysicsEngine :: physics where
  "newPhysicsEngine =
     \<lparr> velocity = zeroVector, angularVelocity = zeroVector, lastControlInput = emptyInput \<rparr>"

definition PLASMA_EFFICIENCY :: real where
  "PLASMA_EFFICIENCY = 0.85"

definition MAGNETIC_FLUX_CONSTANT :: real where
  "MAGNETIC_FLUX_CONSTANT = 432.7"

definition GRAVITY_CONSTANT :: real where
  "GRAVITY_CONSTANT = 9.81"

text \<open>
  \<open>Date.now()\<close> is an input of the model: \<open>now\<close> is the clock reading in
  milliseconds. \<open>coilResonance\<close> and \<open>gravitationalForce\<close> are the local constants of
  \<open>updatePropulsion\<close> with these names.
\<close>

definition coilResonance :: "int \<Rightarrow> real" where
  "coilResonance now = sin (real_of_int now * 0.001 * MAGNETIC_FLUX_CONSTANT) * 0.1 + 0.9"

definition gravitationalForce :: "propulsion \<Rightarrow> int \<Rightarrow> real" where
  "gravitationalForce p now =
     (let antiGravityForce = antiGravity p * coilResonance now
      in - GRAVITY_CONSTANT * (1.0 - antiGravityForce))"

definition getForwardVector :: "transform \<Rightarrow> vector3" where
  "getForwardVector tr = vec3_transformQuat \<lparr> vx = 0, vy = 0, vz = - 1 \<rparr> (rotation tr)"

text \<open>\<open>if (this.lastControlInput.thrust)\<close>: a number other than zero is truthy.\<close>

fun truthy :: "optnum \<Rightarrow> bool" where
  "truthy (Num v) = (v \<noteq> 0)"
| "truthy Undefined = False"
| "truthy Absent = False"

fun numOf :: "optnum \<Rightarrow> real" where
  "numOf (Num v) = v"
| "numOf Undefined = 0"
| "numOf Absent = 0"

definition updatePropulsion :: "real \<Rightarrow> int \<Rightarrow> propulsion \<Rightarrow> transform \<Rightarrow> physics \<Rightarrow> physics" where
  "updatePropulsion deltaTime now p tr s =
     (let plasmaEfficiency = plasmaRate p * PLASMA_EFFICIENCY;
          v1 = (velocity s)\<lparr> vy := vy (velocity s) + gravitationalForce p now * deltaTime \<rparr>;
          v2 = (if truthy (thrust (lastControlInput s)) then
                  (let thrustMagnitude = numOf (thrust (lastControlInput s)) * plasmaEfficiency * 50.0;
                       forward = getForwardVector tr
                   in \<lparr> vx = vx v1 + vx forward * thrustMagnitude * deltaTime,
                        vy = vy v1 + vy forward * thrustMagnitude * deltaTime,
                        vz = vz v1 + vz forward * thrustMagnitude * deltaTime \<rparr>)
                else v1);
          heatGeneration = plasmaRate p * coilTemp p * deltaTime
      in s\<lparr> velocity := v2 \<rparr>)"

text \<open>
  \<open>updateCloakingPhysics\<close> computes two local constants when the cloak is active and
  stores neither: the transform and the engine state leave it as they entered.
\<close>

definition updateCloakingPhysics :: "cloaking \<Rightarrow> transform \<Rightarrow> physics \<Rightarrow> transform \<times> physics" where
  "updateCloakingPhysics c tr s =
     (if cloaking.active c then
        (let cloakingMassReduction = integrity c * 0.3;
             powerDrain = 0.1 * (1.0 - integrity c)
         in (tr, s))
      else (tr, s))"

definition integratePosition :: "real \<Rightarrow> vector3 \<Rightarrow> vector3 \<Rightarrow> vector3" where
  "integratePosition deltaTime v p =
     \<lparr> vx = vx p + vx v * deltaTime, vy = vy p + vy v * deltaTime, vz = vz p + vz v * deltaTime \<rparr>"

definition integrateRotation :: "real \<Rightarrow> vector3 \<Rightarrow> quaternion \<Rightarrow> quaternion" where
  "integrateRotation deltaTime av q =
     (let rotationQuat = q;
          angularQuatStep = quat_fromEuler (vx av * deltaTime * 57.2958)
                                           (vy av * deltaTime * 57.2958)
                                           (vz av * deltaTime * 57.2958)
      in quat_normalize (quat_multiply rotationQuat angularQuatStep))"

definition scaleVector :: "real \<Rightarrow> vector3 \<Rightarrow> vector3" where
  "scaleVector k v = \<lparr> vx = vx v * k, vy = vy v * k, vz = vz v * k \<rparr>"

definition applyDamping :: "physics \<Rightarrow> physics" where
  "applyDamping s =
     s\<lparr> velocity := scaleVector 0.98 (velocity s),
        angularVelocity := scaleVector 0.95 (angularVelocity s) \<rparr>"

text \<open>
  \<open>update\<close> mutates the transform it is given and the engine's own fields; the model
  returns both.
\<close>

definition update :: "real \<Rightarrow> int \<Rightarrow> systemStates \<Rightarrow> transform \<Rightarrow> physics \<Rightarrow> transform \<times> physics" where
  "update deltaTime now sys tr s =
     (let s1 = updatePropulsion deltaTime now (propulsion sys) tr s;
          (tr1, s2) = updateCloakingPhysics (cloaking sys) tr s1;
          tr2 = tr1\<lparr> position := integratePosition deltaTime (velocity s2) (position tr1) \<rparr>;
          tr3 = tr2\<lparr> rotation := integrateRotation deltaTime (angularVelocity s2) (rotation tr2) \<rparr>
      in (tr3, applyDamping s2))"

text \<open>The object spread \<open>{...last, ...input}\<close>, key by key.\<close>

fun spreadField :: "optnum \<Rightarrow> optnum \<Rightarrow> optnum" where
  "spreadField old Absent = old"
| "spreadField old new = new"

definition spreadInput :: "controlInput \<Rightarrow> controlInput \<Rightarrow> controlInput" where
  "spreadInput old new =
     \<lparr> pitch = spreadField (pitch old) (pitch new),
       yaw = spreadField (yaw old) (yaw new),
       roll = spreadField (roll old) (roll new),
       thrust = spreadField (thrust old) (thrust new) \<rparr>"

text \<open>\<open>if (input.pitch !== undefined) this.angularVelocity.x += input.pitch\<close>.\<close>

fun addIfDefined :: "optnum \<Rightarrow> real \<Rightarrow> real" where
  "addIfDefined (Num v) a = a + v"
| "addIfDefined Undefined a = a"
| "addIfDefined Absent a = a"

definition applyControlInput :: "controlInput \<Rightarrow> physics \<Rightarrow> physics" where
  "applyControlInput input s =
     s\<lparr> lastControlInput := spreadInput (lastControlInput s) input,
        angularVelocity :=
          \<lparr> vx = addIfDefined (pitch input) (vx (angularVelocity s)),
            vy = addIfDefined (yaw input) (vy (angularVelocity s)),
            vz = addIfDefined (roll input) (vz (angularVelocity s)) \<rparr> \<rparr>"

definition getVelocity :: "physics \<Rightarrow> vector3" where
  "getVelocity s = velocity s"

definition getSpeed :: "physics \<Rightarrow> real" where
  "getSpeed s = sqrt ((vx (velocity s))\<^sup>2 + (vy (velocity s))\<^sup>2 + (vz (velocity s))\<^sup>2)"

text \<open>
  A sequence of \<open>update\<close> calls on one engine and one transform; each call has its own
  elapsed time, clock reading and subsystem state.
\<close>

fun integrateAll :: "(real \<times> int \<times> systemStates) list \<Rightarrow> transform \<times> physics \<Rightarrow> transform \<times> physics" where
  "integrateAll [] st = st"
| "integrateAll ((deltaTime, now, sys) # rest) st =
     integrateAll rest (update deltaTime now sys (fst st) (snd st))"


section \<open>RenderEngine (the source file that declares \<open>class RenderEngine\<close>)\<close>

text \<open>
  The part of the WebGL2 context state that the engine writes. Handles (programs,
  buffers, uniform locations) are natural numbers; a call of \<open>gl.uniform*\<close> with a
  null location is ignored, as WebGL specifies.
\<close>

datatype blendFactor = ZERO | ONE | SRC_ALPHA | ONE_MINUS_SRC_ALPHA

datatype uniformValue = UMatrix "real list" | UFloat real | UInt int

datatype glCommand = Clear | DrawElements nat

record vertexAttrib =
  attribSize :: nat
  attribStride :: nat
  attribOffset :: nat

record glState =
  viewport :: "real \<times> real \<times> real \<times> real"
  clearColor :: "real \<times> real \<times> real \<times> real"
  currentProgram :: "nat option"
  uniforms :: "nat \<Rightarrow> uniformValue option"
  arrayBuffer :: "nat option"
  elementArrayBuffer :: "nat option"
  attribPointers :: "nat \<Rightarrow> vertexAttrib option"
  attribEnabled :: "nat \<Rightarrow> bool"
  blendEnabled :: bool
  blendFunc :: "blendFactor \<times> blendFactor"
  commands :: "glCommand list"

text \<open>The state of a fresh context: blending disabled, blend function (ONE, ZERO).\<close>

definition newContext :: glState where
  "newContext =
     \<lparr> viewport = (0, 0, 300, 150), clearColor = (0, 0, 0, 0), currentProgram = None,
       uniforms = (\<lambda>_. None), arrayBuffer = None, elementArrayBuffer = None,
       attribPointers = (\<lambda>_. None), attribEnabled = (\<lambda>_. False),
       blendEnabled = False, blendFunc = (ONE, ZERO), commands = [] \<rparr>"

definition gl_uniform :: "nat option \<Rightarrow> uniformValue \<Rightarrow> glState \<Rightarrow> glState" where
  "gl_uniform loc v g =
     (case loc of None \<Rightarrow> g | Some l \<Rightarrow> g\<lparr> uniforms := (uniforms g)(l \<mapsto> v) \<rparr>)"

definition gl_vertexAttribPointer :: "nat \<Rightarrow> nat \<Rightarrow> nat \<Rightarrow> nat \<Rightarrow> glState \<Rightarrow> glState" where
  "gl_vertexAttribPointer i n stride off g =
     g\<lparr> attribPointers := (attribPointers g)
          (i \<mapsto> \<lparr> attribSize = n, attribStride = stride, attribOffset = off \<rparr>) \<rparr>"

definition gl_enableVertexAttribArray :: "nat \<Rightarrow> glState \<Rightarrow> glState" where
  "gl_enableVertexAttribArray i g = g\<lparr> attribEnabled := (attribEnabled g)(i := True) \<rparr>"

text \<open>
  \<open>gl.canvas\<close> is the canvas element the game engine holds; the render engine reads its
  size through the context, so the functions below take the canvas as an argument.
\<close>

record canvas =
  canvasWidth :: nat
  canvasHeight :: nat

record renderEngine =
  gl :: glState
  shaderProgram :: "nat option"
  vertexBuffer :: "nat option"
  indexBuffer :: "nat option"
  viewMatrix :: "real list"
  projectionMatrix :: "real list"
  uniformLocations :: "string \<Rightarrow> nat option"

text \<open>The constructor: two zero-filled \<open>Float32Array(16)\<close> and no GPU handles.\<close>

definition newRenderEngine :: "glState \<Rightarrow> renderEngine" where
  "newRenderEngine g =
     \<lparr> gl = g, shaderProgram = None, vertexBuffer = None, indexBuffer = None,
       viewMatrix = replicate 16 0, projectionMatrix = replicate 16 0,
       uniformLocations = (\<lambda>_. None) \<rparr>"

text \<open>\<open>array.fill(0)\<close> keeps the length of the typed array.\<close>

definition fill0 :: "real list \<Rightarrow> real list" where
  "fill0 m = replicate (length m) 0"

text \<open>
  The aspect ratio is read from \<open>gl.canvas\<close>, not from the arguments of
  \<open>updateViewport\<close>. The quotient is the real one: a canvas of height 0, where
  JavaScript yields Infinity or NaN, is outside the theorems below.
\<close>

definition updateProjectionMatrix :: "canvas \<Rightarrow> renderEngine \<Rightarrow> renderEngine" where
  "updateProjectionMatrix cv re =
     (let aspect = real (canvasWidth cv) / real (canvasHeight cv);
          fov = pi / 4;
          near = 0.1;
          far = 1000.0;
          f = tan (pi * 0.5 - 0.5 * fov);
          rangeInv = 1.0 / (near - far)
      in re\<lparr> projectionMatrix :=
           (fill0 (projectionMatrix re))
             [0 := f / aspect, 5 := f, 10 := (near + far) * rangeInv, 11 := - 1,
              14 := near * far * rangeInv * 2] \<rparr>)"

definition updateViewport :: "canvas \<Rightarrow> real \<Rightarrow> real \<Rightarrow> renderEngine \<Rightarrow> renderEngine" where
  "updateViewport cv width height re =
     updateProjectionMatrix cv (re\<lparr> gl := (gl re)\<lparr> viewport := (0, 0, width, height) \<rparr> \<rparr>)"

definition identityMatrix :: "real list" where
  "identityMatrix = (replicate 16 0)[0 := 1, 5 := 1, 10 := 1, 15 := 1]"

text \<open>
  \<open>render\<close>; \<open>perfNow\<close> is the reading of \<open>performance.now()\<close>. The first line of
  the source returns when there is no shader program.
\<close>

definition render :: "real \<Rightarrow> real \<Rightarrow> transform \<Rightarrow> systemStates \<Rightarrow> renderEngine \<Rightarrow> renderEngine" where
  "render deltaTime perfNow craftTransform sys re =
     (case shaderProgram re of
        None \<Rightarrow> re
      | Some prog \<Rightarrow>
         (let g0 = (gl re)\<lparr> currentProgram := Some prog \<rparr>;
              view = (fill0 (viewMatrix re))[0 := 1, 5 := 1, 10 := 1, 15 := 1, 14 := - 5];
              modelMatrix = identityMatrix;
              loc = uniformLocations re;
              g1 = gl_uniform (loc ''uModelMatrix'') (UMatrix modelMatrix) g0;
              g2 = gl_uniform (loc ''uViewMatrix'') (UMatrix view) g1;
              g3 = gl_uniform (loc ''uProjectionMatrix'') (UMatrix (projectionMatrix re)) g2;
              g4 = gl_uniform (loc ''uTime'') (UFloat (perfNow * 0.001)) g3;
              g5 = gl_uniform (loc ''uCloakingActive'')
                     (UInt (if cloaking.active (cloaking sys) then 1 else 0)) g4;
              g6 = gl_uniform (loc ''uCloakingIntegrity'') (UFloat (integrity (cloaking sys))) g5;
              g7 = gl_uniform (loc ''uPlasmaIntensity'') (UFloat (plasmaRate (propulsion sys))) g6;
              g8 = g7\<lparr> arrayBuffer := vertexBuffer re, elementArrayBuffer := indexBuffer re \<rparr>;
              stride = 8 * 4;
              g9 = gl_enableVertexAttribArray 0 (gl_vertexAttribPointer 0 3 stride 0 g8);
              g10 = gl_enableVertexAttribArray 1 (gl_vertexAttribPointer 1 3 stride (3 * 4) g9);
              g11 = gl_enableVertexAttribArray 2 (gl_vertexAttribPointer 2 2 stride (6 * 4) g10);
              g12 = (if cloaking.active (cloaking sys)
                     then g11\<lparr> blendEnabled := True, blendFunc := (SRC_ALPHA, ONE_MINUS_SRC_ALPHA) \<rparr>
                     else g11\<lparr> blendEnabled := False \<rparr>);
              g13 = g12\<lparr> commands := commands g12 @ [DrawElements 3] \<rparr>
          in re\<lparr> gl := g13, viewMatrix := view \<rparr>))"

section \<open>GameEngine (src/engine/GameEngine.ts)\<close>

text \<open>
  The fields \<open>gl\<close> and \<open>renderEngine\<close> of the source are assigned together in
  \<open>initialize\<close> and refer to one context, which the model keeps inside the render
  engine: \<open>this.gl\<close> is non-null exactly when \<open>renderEngine\<close> is. \<open>console\<close> collects
  the lines written with \<open>console.log\<close>. The audio engine's own state is written by
  the game engine and never read back, and is left out.
\<close>

record gameEngine =
  canvas :: canvas
  physicsEngine :: physics
  renderEngine :: "renderEngine option"
  lastTime :: real
  deltaTime :: real
  isRunning :: bool
  craftTransform :: transform
  currentMission :: "mission option"
  systemStates :: systemStates
  console :: "string list"

text \<open>The initialisers of the fields \<open>craftTransform\<close> and \<open>systemStates\<close>.\<close>

definition initialCraftTransform :: transform where
  "initialCraftTransform =
     \<lparr> position = \<lparr> vx = 0, vy = 100, vz = 0 \<rparr>,
       rotation = \<lparr> qx = 0, qy = 0, qz = 0, qw = 1 \<rparr>,
       scale = \<lparr> vx = 1, vy = 1, vz = 1 \<rparr> \<rparr>"

definition initialSystemStates :: systemStates where
  "initialSystemStates =
     \<lparr> propulsion = \<lparr> plasmaRate = 0.5, coilTemp = 0.3, antiGravity = 0.7 \<rparr>,
       cloaking = \<lparr> cloaking.active = False, integrity = 1.0, heat = 0 \<rparr>,
       sensors = \<lparr> sensors.active = True, sensorRange = 1000, quantum = False \<rparr> \<rparr>"

definition newGameEngine :: "canvas \<Rightarrow> gameEngine" where
  "newGameEngine cv =
     \<lparr> canvas = cv, physicsEngine = newPhysicsEngine, renderEngine = None,
       lastTime = 0, deltaTime = 0, isRunning = False,
       craftTransform = initialCraftTransform,
       currentMission = None,
       systemStates = initialSystemStates,
       console = [] \<rparr>"

definition missions :: "mission list" where
  "missions =
     [ \<lparr> missionId = ''urban-recon-01'',
         name = ''Urban Reconnaissance Alpha'',
         type = Atmospheric,
         difficulty = 1,
         description = ''Conduct stealth surveillance over metropolitan area.'',
         objectives = [''Maintain cloak integrity'', ''Scan designated targets'',
                       ''Avoid radar detection''],
         environment = ''urban-night'',
         duration = 300 \<rparr>,
       \<lparr> missionId = ''lunar-survey-01'',
         name = ''Lunar Anomaly Survey'',
         type = DeepSpace,
         difficulty = 3,
         description = ''Investigate quantum signatures detected on lunar surface.'',
         objectives = [''Navigate to coordinates'', ''Deploy sensor probes'',
                       ''Analyze quantum data''],
         environment = ''lunar-surface'',
         duration = 600 \<rparr> ]"

definition getMissionById :: "string \<Rightarrow> mission option" where
  "getMissionById i = find (\<lambda>m. missionId m = i) missions"

fun missionTypeString :: "missionType \<Rightarrow> string" where
  "missionTypeString Atmospheric = ''atmospheric''"
| "missionTypeString DeepSpace = ''deep-space''"
| "missionTypeString Hybrid = ''hybrid''"

text \<open>\<open>RenderEngine.loadEnvironment\<close> and \<open>AudioEngine.playMissionAudio\<close> only log.\<close>

definition loadEnvironment :: "string \<Rightarrow> string list \<Rightarrow> string list" where
  "loadEnvironment env out = out @ [''Loading environment: '' @ env]"

definition playMissionAudio :: "missionType \<Rightarrow> string list \<Rightarrow> string list" where
  "playMissionAudio ty out = out @ [''Playing mission audio for: '' @ missionTypeString ty]"

text \<open>
  \<open>startMission\<close> stores the result of the lookup in \<open>currentMission\<close> before it tests
  it. It does not call the physics engine.
\<close>

definition startMission :: "string \<Rightarrow> gameEngine \<Rightarrow> gameEngine" where
  "startMission i g =
     (let g1 = g\<lparr> currentMission := getMissionById i \<rparr>
      in case currentMission g1 of
           None \<Rightarrow> g1
         | Some m \<Rightarrow>
            (let out1 = console g1 @ [''Starting mission: '' @ name m];
                 out2 = (case renderEngine g1 of
                           None \<Rightarrow> out1
                         | Some re \<Rightarrow> loadEnvironment (environment m) out1);
                 out3 = playMissionAudio (type m) out2
             in g1\<lparr> console := out3,
                    craftTransform := (craftTransform g1)
                      \<lparr> position := \<lparr> vx = 0, vy = 100, vz = 0 \<rparr>,
                        rotation := \<lparr> qx = 0, qy = 0, qz = 0, qw = 1 \<rparr> \<rparr> \<rparr>))"

text \<open>
  \<open>resizeCanvas\<close>; \<open>clientWidth\<close>, \<open>clientHeight\<close> and \<open>dpr\<close> are what the page
  reports for \<open>canvas.clientWidth\<close>, \<open>canvas.clientHeight\<close> and
  \<open>window.devicePixelRatio\<close>. Assigning to \<open>canvas.width\<close> stores an unsigned integer.
\<close>

definition resizeCanvas :: "nat \<Rightarrow> nat \<Rightarrow> real \<Rightarrow> gameEngine \<Rightarrow> gameEngine" where
  "resizeCanvas clientWidth clientHeight dpr g =
     (let devicePixelRatio = (if dpr = 0 then 1 else dpr);
          displayWidth = real clientWidth * devicePixelRatio;
          displayHeight = real clientHeight * devicePixelRatio
      in if real (canvasWidth (canvas g)) \<noteq> displayWidth \<or>
            real (canvasHeight (canvas g)) \<noteq> displayHeight
         then
           (let cv = \<lparr> canvasWidth = nat \<lfloor>displayWidth\<rfloor>, canvasHeight = nat \<lfloor>displayHeight\<rfloor> \<rparr>
            in g\<lparr> canvas := cv,
                  renderEngine :=
                    (case renderEngine g of
                       None \<Rightarrow> None
                     | Some re \<Rightarrow>
                        Some (updateViewport cv displayWidth displayHeight
                               (re\<lparr> gl := (gl re)\<lparr> viewport := (0, 0, displayWidth, displayHeight) \<rparr> \<rparr>))) \<rparr>)
         else g)"

text \<open>
  \<open>GameEngine.render\<close>; \<open>t\<close> and \<open>t'\<close> are the two readings of \<open>performance.now()\<close>
  (in the game engine and in the render engine) and \<open>now\<close> that of \<open>Date.now()\<close>.
\<close>

definition engineRender :: "real \<Rightarrow> real \<Rightarrow> int \<Rightarrow> gameEngine \<Rightarrow> gameEngine" where
  "engineRender t t' now g =
     (case renderEngine g of
        None \<Rightarrow> g
      | Some re \<Rightarrow>
         if isRunning g then
           (let dt = (t - lastTime g) / 1000.0;
                (tr, ph) = update dt now (systemStates g) (craftTransform g) (physicsEngine g);
                g1 = (gl re)\<lparr> clearColor := (0.02, 0.02, 0.1, 1.0) \<rparr>;
                g2 = g1\<lparr> commands := commands g1 @ [Clear] \<rparr>;
                re' = render dt t' tr (systemStates g) (re\<lparr> gl := g2 \<rparr>)
            in g\<lparr> deltaTime := dt, lastTime := t, craftTransform := tr,
                  physicsEngine := ph, renderEngine := Some re' \<rparr>)
         else g)"

definition pause :: "gameEngine \<Rightarrow> gameEngine" where
  "pause g = g\<lparr> isRunning := False \<rparr>"

definition resume :: "real \<Rightarrow> gameEngine \<Rightarrow> gameEngine" where
  "resume t g = g\<lparr> isRunning := True, lastTime := t \<rparr>"

section \<open>Control input\<close>

text \<open>
  C3. \<open>applyControlInput\<close> overwrites in the stored control input exactly the keys
  that its argument carries and keeps every other key; each of pitch, yaw and roll that
  is present with a number is added to its axis of the angular velocity. In particular
  \<open>applyControlInput({pitch: 0.1})\<close> followed by \<open>applyControlInput({yaw: 0.2})\<close> leaves
  the stored pitch at 0.1 and the 0.1 that the first call added to the angular velocity
  about x in place.
\<close>

theorem applyControlInput_merges_and_accumulates:
  "pitch (lastControlInput (applyControlInput i s)) =
     (case pitch i of Absent \<Rightarrow> pitch (lastControlInput s) | Undefined \<Rightarrow> Undefined | Num v \<Rightarrow> Num v)
   \<and> yaw (lastControlInput (applyControlInput i s)) =
     (case yaw i of Absent \<Rightarrow> yaw (lastControlInput s) | Undefined \<Rightarrow> Undefined | Num v \<Rightarrow> Num v)
   \<and> roll (lastControlInput (applyControlInput i s)) =
     (case roll i of Absent \<Rightarrow> roll (lastControlInput s) | Undefined \<Rightarrow> Undefined | Num v \<Rightarrow> Num v)
   \<and> thrust (lastControlInput (applyControlInput i s)) =
     (case thrust i of Absent \<Rightarrow> thrust (lastControlInput s) | Undefined \<Rightarrow> Undefined | Num v \<Rightarrow> Num v)
   \<and> vx (angularVelocity (applyControlInput i s)) =
     vx (angularVelocity s) + (case pitch i of Num v \<Rightarrow> v | Undefined \<Rightarrow> 0 | Absent \<Rightarrow> 0)
   \<and> vy (angularVelocity (applyControlInput i s)) =
     vy (angularVelocity s) + (case yaw i of Num v \<Rightarrow> v | Undefined \<Rightarrow> 0 | Absent \<Rightarrow> 0)
   \<and> vz (angularVelocity (applyControlInput i s)) =
     vz (angularVelocity s) + (case roll i of Num v \<Rightarrow> v | Undefined \<Rightarrow> 0 | Absent \<Rightarrow> 0)
   \<and> velocity (applyControlInput i s) = velocity s
   \<and> (let s2 = applyControlInput (emptyInput\<lparr> yaw := Num 0.2 \<rparr>)
                  (applyControlInput (emptyInput\<lparr> pitch := Num 0.1 \<rparr>) s)
      in pitch (lastControlInput s2) = Num 0.1
       \<and> yaw (lastControlInput s2) = Num 0.2
       \<and> roll (lastControlInput s2) = roll (lastControlInput s)
       \<and> thrust (lastControlInput s2) = thrust (lastControlInput s)
       \<and> vx (angularVelocity s2) = vx (angularVelocity s) + 0.1
       \<and> vy (angularVelocity s2) = vy (angularVelocity s) + 0.2
       \<and> vz (angularVelocity s2) = vz (angularVelocity s))"
proof -
  have merged: "\<And>old new. spreadField old new =
      (case new of Absent \<Rightarrow> old | Undefined \<Rightarrow> Undefined | Num v \<Rightarrow> Num v)"
    by (case_tac new) simp_all
  have added: "\<And>new a. addIfDefined new a =
      a + (case new of Num v \<Rightarrow> v | Undefined \<Rightarrow> 0 | Absent \<Rightarrow> 0)"
    by (case_tac new) simp_all
  have general:
    "lastControlInput (applyControlInput i s) = spreadInput (lastControlInput s) i"
    "vx (angularVelocity (applyControlInput i s)) = addIfDefined (pitch i) (vx (angularVelocity s))"
    "vy (angularVelocity (applyControlInput i s)) = addIfDefined (yaw i) (vy (angularVelocity s))"
    "vz (angularVelocity (applyControlInput i s)) = addIfDefined (roll i) (vz (angularVelocity s))"
    "velocity (applyControlInput i s) = velocity s"
    by (simp_all add: applyControlInput_def)
  have example:
    "let s2 = applyControlInput (emptyInput\<lparr> yaw := Num 0.2 \<rparr>)
                 (applyControlInput (emptyInput\<lparr> pitch := Num 0.1 \<rparr>) s)
     in pitch (lastControlInput s2) = Num 0.1
      \<and> yaw (lastControlInput s2) = Num 0.2
      \<and> roll (lastControlInput s2) = roll (lastControlInput s)
      \<and> thrust (lastControlInput s2) = thrust (lastControlInput s)
      \<and> vx (angularVelocity s2) = vx (angularVelocity s) + 0.1
      \<and> vy (angularVelocity s2) = vy (angularVelocity s) + 0.2
      \<and> vz (angularVelocity s2) = vz (angularVelocity s)"
    by (simp add: applyControlInput_def spreadInput_def emptyInput_def Let_def)
  show ?thesis
    unfolding general
    by (simp only: spreadInput_def controlInput.simps merged added example simp_thms)
qed

section \<open>One integration step\<close>

lemma update_velocity:
  "velocity (snd (update dt now sys tr s)) =
     scaleVector 0.98 (velocity (updatePropulsion dt now (propulsion sys) tr s))"
  by (simp add: update_def updateCloakingPhysics_def Let_def applyDamping_def)

lemma update_angularVelocity:
  "angularVelocity (snd (update dt now sys tr s)) = scaleVector 0.95 (angularVelocity s)"
  by (simp add: update_def updateCloakingPhysics_def updatePropulsion_def Let_def applyDamping_def)

lemma update_position:
  "position (fst (update dt now sys tr s)) =
     integratePosition dt (velocity (updatePropulsion dt now (propulsion sys) tr s)) (position tr)"
  by (simp add: update_def updateCloakingPhysics_def Let_def)

lemma update_rotation:
  "rotation (fst (update dt now sys tr s)) =
     integrateRotation dt (angularVelocity s) (rotation tr)"
  by (simp add: update_def updateCloakingPhysics_def updatePropulsion_def Let_def)

text \<open>
  C4. Every \<open>update\<close> call ends by multiplying each component of the linear velocity by
  0.98 and each component of the angular velocity by 0.95, whatever the elapsed time:
  the velocity it leaves is 0.98 times the velocity after the propulsion step, which is
  also the velocity that the position integration of the same call used, and the
  angular velocity it leaves is 0.95 times the one that it found and that the rotation
  integration used.
\<close>

theorem update_damping:
  "(let pre = updatePropulsion dt now (propulsion sys) tr s;
        tr' = fst (update dt now sys tr s);
        s' = snd (update dt now sys tr s)
    in vx (velocity s') = vx (velocity pre) * 0.98
     \<and> vy (velocity s') = vy (velocity pre) * 0.98
     \<and> vz (velocity s') = vz (velocity pre) * 0.98
     \<and> vx (angularVelocity s') = vx (angularVelocity s) * 0.95
     \<and> vy (angularVelocity s') = vy (angularVelocity s) * 0.95
     \<and> vz (angularVelocity s') = vz (angularVelocity s) * 0.95
     \<and> position tr' = integratePosition dt (velocity pre) (position tr)
     \<and> rotation tr' = integrateRotation dt (angularVelocity s) (rotation tr))"
  unfolding Let_def update_velocity update_angularVelocity update_position update_rotation
  by (simp add: scaleVector_def)

text \<open>
  C6. The cloaking record has no influence on \<open>update\<close>: two calls that differ only in
  the cloaking state (active, integrity, heat) return the same transform, the same
  velocity and the same angular velocity.
\<close>

theorem update_ignores_cloaking:
  "update dt now (sys\<lparr> cloaking := c1 \<rparr>) tr s = update dt now (sys\<lparr> cloaking := c2 \<rparr>) tr s"
  by (simp add: update_def updateCloakingPhysics_def Let_def)

section \<open>Starting a mission\<close>

lemma known_mission: "getMissionById ''urban-recon-01'' \<noteq> None"
  by (simp add: getMissionById_def missions_def)

lemma unknown_mission: "getMissionById ''no-such-mission'' = None"
  by (simp add: getMissionById_def missions_def)

text \<open>
  C1, as stated (position, orientation and velocity are all reset), fails: the engine
  below has the linear velocity (0, 0, -10) and, after a pitch input, the angular
  velocity (0.1, 0, 0); \<open>startMission\<close> with a known id leaves both as they are.
\<close>

theorem startMission_keeps_velocity_counterexample:
  "getMissionById ''urban-recon-01'' \<noteq> None
   \<and> velocity (physicsEngine (startMission ''urban-recon-01''
        ((newGameEngine \<lparr> canvasWidth = 300, canvasHeight = 150 \<rparr>)
           \<lparr> physicsEngine := applyControlInput (emptyInput\<lparr> pitch := Num 0.1 \<rparr>)
               (newPhysicsEngine\<lparr> velocity := \<lparr> vx = 0, vy = 0, vz = - 10 \<rparr> \<rparr>) \<rparr>)))
       = \<lparr> vx = 0, vy = 0, vz = - 10 \<rparr>
   \<and> angularVelocity (physicsEngine (startMission ''urban-recon-01''
        ((newGameEngine \<lparr> canvasWidth = 300, canvasHeight = 150 \<rparr>)
           \<lparr> physicsEngine := applyControlInput (emptyInput\<lparr> pitch := Num 0.1 \<rparr>)
               (newPhysicsEngine\<lparr> velocity := \<lparr> vx = 0, vy = 0, vz = - 10 \<rparr> \<rparr>) \<rparr>)))
       = \<lparr> vx = 0.1, vy = 0, vz = 0 \<rparr>"
  by (simp add: startMission_def getMissionById_def missions_def newGameEngine_def
      applyControlInput_def newPhysicsEngine_def emptyInput_def zeroVector_def Let_def)

text \<open>
  C1, amended. For every prior state, \<open>startMission\<close> with a known id sets the position
  of the craft to (0, 100, 0) and its orientation to the identity quaternion (0, 0, 0, 1);
  the physics engine (linear velocity, angular velocity, last control input) is left
  unchanged.
\<close>

theorem startMission_known_resets_pose:
  assumes "getMissionById i \<noteq> None"
  shows "position (craftTransform (startMission i g)) = \<lparr> vx = 0, vy = 100, vz = 0 \<rparr>
       \<and> rotation (craftTransform (startMission i g)) = \<lparr> qx = 0, qy = 0, qz = 0, qw = 1 \<rparr>
       \<and> physicsEngine (startMission i g) = physicsEngine g"
  using assms by (auto simp add: startMission_def Let_def)

theorem startMission_known_resets_pose_witness:
  "getMissionById ''lunar-survey-01'' \<noteq> None
   \<and> position (craftTransform (startMission ''lunar-survey-01''
        ((newGameEngine \<lparr> canvasWidth = 300, canvasHeight = 150 \<rparr>)
           \<lparr> craftTransform := initialCraftTransform
               \<lparr> position := \<lparr> vx = 5, vy = 7, vz = 9 \<rparr>,
                 rotation := \<lparr> qx = 1, qy = 0, qz = 0, qw = 0 \<rparr> \<rparr> \<rparr>)))
       = \<lparr> vx = 0, vy = 100, vz = 0 \<rparr>
   \<and> rotation (craftTransform (startMission ''lunar-survey-01''
        ((newGameEngine \<lparr> canvasWidth = 300, canvasHeight = 150 \<rparr>)
           \<lparr> craftTransform := initialCraftTransform
               \<lparr> position := \<lparr> vx = 5, vy = 7, vz = 9 \<rparr>,
                 rotation := \<lparr> qx = 1, qy = 0, qz = 0, qw = 0 \<rparr> \<rparr> \<rparr>)))
       = \<lparr> qx = 0, qy = 0, qz = 0, qw = 1 \<rparr>"
proof -
  have known: "getMissionById ''lunar-survey-01'' \<noteq> None"
    by (simp add: getMissionById_def missions_def)
  show ?thesis
    using known startMission_known_resets_pose [OF known] by simp
qed

text \<open>
  C8, as stated (an unknown id changes nothing, the current mission included), fails:
  after a mission has been started, \<open>startMission\<close> with an unknown id clears
  \<open>currentMission\<close>.
\<close>

theorem startMission_unknown_clears_mission_counterexample:
  "getMissionById ''no-such-mission'' = None
   \<and> currentMission (startMission ''urban-recon-01''
        (newGameEngine \<lparr> canvasWidth = 300, canvasHeight = 150 \<rparr>)) \<noteq> None
   \<and> currentMission (startMission ''no-such-mission'' (startMission ''urban-recon-01''
        (newGameEngine \<lparr> canvasWidth = 300, canvasHeight = 150 \<rparr>))) = None"
  by (simp add: startMission_def getMissionById_def missions_def newGameEngine_def Let_def)

text \<open>
  C8, amended. For every prior state, \<open>startMission\<close> with an id that matches no
  mission leaves the craft transform, the physics engine (velocity state), the subsystem
  state and the console unchanged and raises nothing; the only field it writes is
  \<open>currentMission\<close>, which it sets to null.
\<close>

theorem startMission_unknown:
  assumes "getMissionById i = None"
  shows "startMission i g = g\<lparr> currentMission := None \<rparr>
       \<and> craftTransform (startMission i g) = craftTransform g
       \<and> physicsEngine (startMission i g) = physicsEngine g
       \<and> systemStates (startMission i g) = systemStates g
       \<and> currentMission (startMission i g) = None"
  using assms by (simp add: startMission_def Let_def)

theorem startMission_unknown_witness:
  "getMissionById ''no-such-mission'' = None
   \<and> startMission ''no-such-mission'' (newGameEngine \<lparr> canvasWidth = 300, canvasHeight = 150 \<rparr>)
       = newGameEngine \<lparr> canvasWidth = 300, canvasHeight = 150 \<rparr>"
  using unknown_mission
    startMission_unknown [OF unknown_mission, of "newGameEngine \<lparr> canvasWidth = 300, canvasHeight = 150 \<rparr>"]
  by (simp add: newGameEngine_def)

text \<open>
  C10. For every prior state and every id (known or not), \<open>startMission\<close> leaves the
  scale of the craft transform and the three subsystem records (propulsion, cloaking,
  sensors) unchanged.
\<close>

theorem startMission_frame:
  "scale (craftTransform (startMission i g)) = scale (craftTransform g)
   \<and> propulsion (systemStates (startMission i g)) = propulsion (systemStates g)
   \<and> cloaking (systemStates (startMission i g)) = cloaking (systemStates g)
   \<and> sensors (systemStates (startMission i g)) = sensors (systemStates g)"
  by (simp add: startMission_def Let_def split: option.splits)

section \<open>Rendering\<close>

text \<open>
  The guard on the first line of \<open>render\<close>: an engine without a shader program (one on
  which \<open>initialize\<close> has not succeeded) is returned as it is, with the context, the
  blending state included, untouched.
\<close>

lemma render_without_program:
  "shaderProgram re = None \<Longrightarrow> render dt t tr sys re = re"
  by (simp add: render_def)

lemma render_keeps_program: "shaderProgram (render dt t tr sys re) = shaderProgram re"
  by (simp add: render_def Let_def split: option.splits)

text \<open>
  C7. For every render call on an engine that holds a shader program (the state that a
  successful \<open>initialize\<close> establishes, and the only one in which the pipeline's
  lifecycle admits a render call), blending is enabled after the call if and only if
  the cloak is active; when the cloak is active the blend function is (source alpha,
  one minus source alpha), and when it is not, blending is disabled and the blend
  function is the one the context had.
\<close>

theorem render_blending:
  assumes "shaderProgram re \<noteq> None"
  shows "blendEnabled (gl (render dt t tr sys re)) = cloaking.active (cloaking sys)
       \<and> blendFunc (gl (render dt t tr sys re)) =
           (if cloaking.active (cloaking sys) then (SRC_ALPHA, ONE_MINUS_SRC_ALPHA)
            else blendFunc (gl re))"
proof -
  from assms obtain prog where prog: "shaderProgram re = Some prog"
    by auto
  have frame: "\<And>loc v g. blendFunc (gl_uniform loc v g) = blendFunc g"
    by (simp add: gl_uniform_def split: option.splits)
  show ?thesis
    by (simp add: render_def prog Let_def frame gl_enableVertexAttribArray_def
        gl_vertexAttribPointer_def)
qed

theorem render_blending_witness:
  "shaderProgram ((newRenderEngine newContext)\<lparr> shaderProgram := Some 1 \<rparr>) \<noteq> None
   \<and> blendEnabled (gl (render 0 0 initialCraftTransform
        (initialSystemStates\<lparr> cloaking := \<lparr> cloaking.active = True, integrity = 1, heat = 0 \<rparr> \<rparr>)
        ((newRenderEngine newContext)\<lparr> shaderProgram := Some 1 \<rparr>)))
   \<and> \<not> blendEnabled (gl (render 0 0 initialCraftTransform initialSystemStates
        ((newRenderEngine (newContext\<lparr> blendEnabled := True \<rparr>))\<lparr> shaderProgram := Some 1 \<rparr>)))"
proof -
  have a: "shaderProgram ((newRenderEngine newContext)\<lparr> shaderProgram := Some 1 \<rparr>) \<noteq> None"
    by simp
  have b: "shaderProgram ((newRenderEngine (newContext\<lparr> blendEnabled := True \<rparr>))
             \<lparr> shaderProgram := Some 1 \<rparr>) \<noteq> None"
    by simp
  show ?thesis
    using a render_blending [OF a, of 0 0 initialCraftTransform
        "initialSystemStates\<lparr> cloaking := \<lparr> cloaking.active = True, integrity = 1, heat = 0 \<rparr> \<rparr>"]
      render_blending [OF b, of 0 0 initialCraftTransform initialSystemStates]
    by (simp add: initialSystemStates_def)
qed

section \<open>The orientation stays a unit quaternion\<close>

lemma sqlen_multiply: "quat_sqlen (quat_multiply a b) = quat_sqlen a * quat_sqlen b"
  by (simp add: quat_sqlen_def quat_multiply_def algebra_simps)

lemma euler_product:
  fixes sx cx sy cy sz cz :: real
  shows "(sx * cy * cz - cx * sy * sz) * (sx * cy * cz - cx * sy * sz)
       + (cx * sy * cz + sx * cy * sz) * (cx * sy * cz + sx * cy * sz)
       + (cx * cy * sz - sx * sy * cz) * (cx * cy * sz - sx * sy * cz)
       + (cx * cy * cz + sx * sy * sz) * (cx * cy * cz + sx * sy * sz)
       = (sx * sx + cx * cx) * (sy * sy + cy * cy) * (sz * sz + cz * cz)"
  by (simp add: algebra_simps)

lemma sin_cos_unit: "sin (t::real) * sin t + cos t * cos t = 1"
  using sin_cos_squared_add [of t] by (simp add: power2_eq_square)

lemma sqlen_fromEuler: "quat_sqlen (quat_fromEuler ex ey ez) = 1"
  unfolding quat_sqlen_def quat_fromEuler_def Let_def quaternion.simps euler_product
  by (simp only: sin_cos_unit mult_1)

lemma sqlen_normalize:
  assumes pos: "0 < quat_sqlen a"
  shows "quat_sqlen (quat_normalize a) = 1"
proof -
  define k where "k = 1 / sqrt (quat_sqlen a)"
  have kk: "k * k = 1 / quat_sqlen a"
    using pos by (simp add: k_def)
  have n: "quat_normalize a = \<lparr> qx = qx a * k, qy = qy a * k, qz = qz a * k, qw = qw a * k \<rparr>"
    using pos by (simp add: quat_normalize_def Let_def k_def)
  have "quat_sqlen (quat_normalize a) = quat_sqlen a * (k * k)"
    unfolding n by (simp add: quat_sqlen_def algebra_simps)
  then show ?thesis using pos kk by simp
qed

text \<open>
  Without the normalisation the product keeps the squared length of the orientation it
  started from; with it, every orientation other than zero is brought to length 1.
\<close>

lemma sqlen_unnormalised_step:
  "quat_sqlen (quat_multiply q (quat_fromEuler ex ey ez)) = quat_sqlen q"
  by (simp add: sqlen_multiply sqlen_fromEuler)

lemma sqlen_integrateRotation:
  "0 < quat_sqlen q \<Longrightarrow> quat_sqlen (integrateRotation dt av q) = 1"
  by (simp add: integrateRotation_def Let_def sqlen_normalize sqlen_unnormalised_step)

lemma norm_unit_iff: "quat_norm q = 1 \<longleftrightarrow> quat_sqlen q = 1"
  by (simp add: quat_norm_def)

lemma update_unit:
  "0 < quat_sqlen (rotation tr) \<Longrightarrow> quat_sqlen (rotation (fst (update dt now sys tr s))) = 1"
  by (simp add: update_rotation sqlen_integrateRotation)

lemma integrateAll_unit:
  "quat_sqlen (rotation (fst st)) = 1 \<Longrightarrow>
   quat_sqlen (rotation (fst (integrateAll steps st))) = 1"
proof (induction steps arbitrary: st)
  case Nil
  then show ?case by simp
next
  case (Cons step rest)
  obtain dt now sys where step: "step = (dt, now, sys)"
    by (cases step) auto
  have "quat_sqlen (rotation (fst (update dt now sys (fst st) (snd st)))) = 1"
    using Cons.prems by (simp add: update_unit)
  then show ?case
    using Cons.IH by (simp add: step)
qed

lemma integrateAll_renormalises:
  assumes "0 < quat_sqlen (rotation tr)"
  shows "quat_sqlen (rotation (fst (integrateAll ((dt, now, sys) # rest) (tr, s)))) = 1"
  using integrateAll_unit [of "update dt now sys tr s" rest] update_unit [OF assms]
  by simp

text \<open>
  The zero quaternion is the one orientation that \<open>quat.normalize\<close> cannot repair: an
  \<open>update\<close> call leaves it zero.
\<close>

lemma sqlen_normalize_zero:
  assumes "quat_sqlen a = 0"
  shows "quat_sqlen (quat_normalize a) = 0"
proof -
  have "quat_normalize a = \<lparr> qx = 0, qy = 0, qz = 0, qw = 0 \<rparr>"
    using assms by (simp add: quat_normalize_def Let_def)
  then show ?thesis
    by (simp add: quat_sqlen_def)
qed

lemma update_zero_orientation:
  "quat_sqlen (rotation tr) = 0 \<Longrightarrow> quat_sqlen (rotation (fst (update dt now sys tr s))) = 0"
  by (simp add: update_rotation integrateRotation_def Let_def sqlen_normalize_zero
      sqlen_unnormalised_step)

text \<open>
  C5. One \<open>update\<close> call replaces the orientation \<open>q\<close> by the normalised product
  \<open>q * delta\<close> (the delta on the right), and the normalisation is what keeps the norm:
  whatever the length of the orientation that the call finds, as long as it is not zero
  (a unit quaternion, one that has drifted, or one of length 2), the orientation that
  the call leaves has norm 1, hence within 1e-4 of 1. So after every call of any
  sequence of \<open>update\<close> calls (the first call followed by any prefix \<open>take n steps\<close> of
  the rest) the norm is within 1e-4 of 1, and from a unit orientation this holds for
  every prefix of every sequence, the empty one included. Over the reals the norm is
  exactly 1.
\<close>

theorem orientation_stays_unit:
  assumes "0 < quat_sqlen (rotation tr)"
  shows "rotation (fst (update dt now sys tr s)) =
           quat_normalize (quat_multiply (rotation tr)
             (quat_fromEuler (vx (angularVelocity s) * dt * 57.2958)
                             (vy (angularVelocity s) * dt * 57.2958)
                             (vz (angularVelocity s) * dt * 57.2958)))
       \<and> quat_norm (rotation (fst (update dt now sys tr s))) = 1
       \<and> quat_norm (rotation (fst (integrateAll ((dt, now, sys) # take n steps) (tr, s)))) = 1
       \<and> \<bar>quat_norm (rotation (fst (integrateAll ((dt, now, sys) # take n steps) (tr, s)))) - 1\<bar>
            \<le> 1 / 10000
       \<and> (quat_norm (rotation tr) = 1 \<longrightarrow>
            quat_norm (rotation (fst (integrateAll (take n steps) (tr, s)))) = 1
            \<and> \<bar>quat_norm (rotation (fst (integrateAll (take n steps) (tr, s)))) - 1\<bar>
                 \<le> 1 / 10000)"
proof -
  have step: "rotation (fst (update dt now sys tr s)) =
           quat_normalize (quat_multiply (rotation tr)
             (quat_fromEuler (vx (angularVelocity s) * dt * 57.2958)
                             (vy (angularVelocity s) * dt * 57.2958)
                             (vz (angularVelocity s) * dt * 57.2958)))"
    by (simp add: update_rotation integrateRotation_def)
  have one: "quat_norm (rotation (fst (update dt now sys tr s))) = 1"
    using update_unit [OF assms] by (simp add: norm_unit_iff)
  have more: "quat_norm (rotation (fst (integrateAll ((dt, now, sys) # take n steps) (tr, s)))) = 1"
    using integrateAll_renormalises [OF assms] by (simp add: norm_unit_iff)
  have from_unit: "quat_norm (rotation (fst (integrateAll (take n steps) (tr, s)))) = 1"
    if "quat_norm (rotation tr) = 1"
    using that integrateAll_unit [of "(tr, s)" "take n steps"] by (simp add: norm_unit_iff)
  show ?thesis
    using step one more from_unit by simp
qed

theorem orientation_stays_unit_witness:
  "0 < quat_sqlen (rotation (initialCraftTransform\<lparr> rotation := \<lparr> qx = 0, qy = 0, qz = 0, qw = 2 \<rparr> \<rparr>))
   \<and> quat_norm (rotation (initialCraftTransform\<lparr> rotation := \<lparr> qx = 0, qy = 0, qz = 0, qw = 2 \<rparr> \<rparr>)) = 2
   \<and> quat_norm (rotation (fst (update 0.016 0 initialSystemStates
        (initialCraftTransform\<lparr> rotation := \<lparr> qx = 0, qy = 0, qz = 0, qw = 2 \<rparr> \<rparr>)
        (applyControlInput (emptyInput\<lparr> pitch := Num 0.02 \<rparr>) newPhysicsEngine)))) = 1
   \<and> quat_norm (rotation initialCraftTransform) = 1
   \<and> \<bar>quat_norm (rotation (fst (integrateAll
        (take 2 [(0.016, 0, initialSystemStates), (0.016, 16, initialSystemStates),
                 (0.016, 32, initialSystemStates)])
        (initialCraftTransform,
         applyControlInput (emptyInput\<lparr> pitch := Num 0.02 \<rparr>) newPhysicsEngine)))) - 1\<bar>
       \<le> 1 / 10000"
proof -
  let ?long = "initialCraftTransform\<lparr> rotation := \<lparr> qx = 0, qy = 0, qz = 0, qw = 2 \<rparr> \<rparr>"
  let ?s = "applyControlInput (emptyInput\<lparr> pitch := Num 0.02 \<rparr>) newPhysicsEngine"
  have long: "0 < quat_sqlen (rotation ?long)"
    by (simp add: quat_sqlen_def)
  have two: "quat_norm (rotation ?long) = 2"
    by (simp add: quat_norm_def quat_sqlen_def)
  have pos: "0 < quat_sqlen (rotation initialCraftTransform)"
    by (simp add: initialCraftTransform_def quat_sqlen_def)
  have unit: "quat_norm (rotation initialCraftTransform) = 1"
    by (simp add: initialCraftTransform_def quat_norm_def quat_sqlen_def)
  show ?thesis
    using long two unit
      orientation_stays_unit [OF long, of "0.016" 0 initialSystemStates "?s" 0 "[]"]
      orientation_stays_unit [OF pos, of "0.016" 0 initialSystemStates "?s" 2
        "[(0.016, 0, initialSystemStates), (0.016, 16, initialSystemStates),
          (0.016, 32, initialSystemStates)]"]
    by blast
qed

section \<open>Thrust from rest\<close>

lemma coilResonance_bounds: "0.8 \<le> coilResonance now \<and> coilResonance now \<le> 1"
proof -
  have "- 1 \<le> sin (real_of_int now * 0.001 * MAGNETIC_FLUX_CONSTANT)"
    and "sin (real_of_int now * 0.001 * MAGNETIC_FLUX_CONSTANT) \<le> 1"
    by simp_all
  then show ?thesis unfolding coilResonance_def by linarith
qed

lemma forward_unit:
  assumes "quat_sqlen (rotation tr) = 1"
  shows "(vx (getForwardVector tr))\<^sup>2 + (vy (getForwardVector tr))\<^sup>2
           + (vz (getForwardVector tr))\<^sup>2 = 1"
proof -
  define a b c d where "a = qx (rotation tr)" and "b = qy (rotation tr)"
    and "c = qz (rotation tr)" and "d = qw (rotation tr)"
  have n: "a * a + b * b + c * c + d * d = 1"
    using assms by (simp add: quat_sqlen_def a_def b_def c_def d_def)
  have "(vx (getForwardVector tr))\<^sup>2 + (vy (getForwardVector tr))\<^sup>2
          + (vz (getForwardVector tr))\<^sup>2
        = 4 * (a * a + b * b) * (a * a + b * b + c * c + d * d - 1) + 1"
    unfolding getForwardVector_def vec3_transformQuat_def Let_def a_def b_def c_def d_def
    by (simp add: power2_eq_square algebra_simps)
  then show ?thesis by (simp add: n)
qed

text \<open>
  C2. From rest, with thrust 1 in the last control input, plasma rate 1 and anti-gravity
  1, one \<open>update\<close> call with elapsed time 1 sees a vertical acceleration
  \<open>-0.981 * (1 - sin (now * 0.001 * 432.7))\<close>: anti-gravity cancels between 80 and 100
  per cent of the 9.81, so the residue lies between -1.962 and 0. Before damping, the
  velocity is that residue on the vertical axis plus 42.5 (= 1 * 1 * 0.85 * 50 * 1) times
  the forward vector of the craft, which has length 1 for a unit orientation; the call
  returns 0.98 times this velocity.
\<close>

theorem thrust_from_rest:
  assumes "velocity s = zeroVector"
    and "thrust (lastControlInput s) = Num 1"
    and "plasmaRate (propulsion sys) = 1"
    and "antiGravity (propulsion sys) = 1"
    and "quat_norm (rotation tr) = 1"
  shows "(let a = gravitationalForce (propulsion sys) now;
              f = getForwardVector tr;
              pre = updatePropulsion 1 now (propulsion sys) tr s
          in a = - 0.981 * (1 - sin (real_of_int now * 0.001 * 432.7))
           \<and> - 1.962 \<le> a \<and> a \<le> 0
           \<and> (vx f)\<^sup>2 + (vy f)\<^sup>2 + (vz f)\<^sup>2 = 1
           \<and> velocity pre = \<lparr> vx = vx f * 42.5, vy = a + vy f * 42.5, vz = vz f * 42.5 \<rparr>
           \<and> velocity (snd (update 1 now sys tr s)) = scaleVector 0.98 (velocity pre))"
proof -
  have lin: "- 9.81 * (1 - (x * 0.1 + 0.9)) = - 0.981 * (1 - x)" for x :: real
    by simp
  have acc: "gravitationalForce (propulsion sys) now =
               - 0.981 * (1 - sin (real_of_int now * 0.001 * 432.7))"
    using assms(4) lin [of "sin (real_of_int now * 0.001 * 432.7)"]
    by (simp add: gravitationalForce_def coilResonance_def GRAVITY_CONSTANT_def
        MAGNETIC_FLUX_CONSTANT_def Let_def)
  have res: "gravitationalForce (propulsion sys) now = - 9.81 * (1 - coilResonance now)"
    using assms(4) by (simp add: gravitationalForce_def GRAVITY_CONSTANT_def Let_def)
  have bounds: "- 1.962 \<le> gravitationalForce (propulsion sys) now"
    "gravitationalForce (propulsion sys) now \<le> 0"
    using coilResonance_bounds [of now] unfolding res by simp_all
  have unit: "(vx (getForwardVector tr))\<^sup>2 + (vy (getForwardVector tr))\<^sup>2
                + (vz (getForwardVector tr))\<^sup>2 = 1"
    using assms(5) by (simp add: forward_unit norm_unit_iff)
  have pre: "velocity (updatePropulsion 1 now (propulsion sys) tr s) =
      \<lparr> vx = vx (getForwardVector tr) * 42.5,
        vy = gravitationalForce (propulsion sys) now + vy (getForwardVector tr) * 42.5,
        vz = vz (getForwardVector tr) * 42.5 \<rparr>"
    using assms(1,2,3)
    by (simp add: updatePropulsion_def Let_def zeroVector_def PLASMA_EFFICIENCY_def)
  show ?thesis
    unfolding Let_def using acc bounds unit pre update_velocity by simp
qed

theorem thrust_from_rest_witness:
  "velocity (newPhysicsEngine\<lparr> lastControlInput := emptyInput\<lparr> thrust := Num 1 \<rparr> \<rparr>) = zeroVector
   \<and> quat_norm (rotation initialCraftTransform) = 1
   \<and> gravitationalForce \<lparr> plasmaRate = 1, coilTemp = 0.3, antiGravity = 1 \<rparr> 0 = - 0.981
   \<and> velocity (updatePropulsion 1 0 \<lparr> plasmaRate = 1, coilTemp = 0.3, antiGravity = 1 \<rparr>
        initialCraftTransform
        (newPhysicsEngine\<lparr> lastControlInput := emptyInput\<lparr> thrust := Num 1 \<rparr> \<rparr>))
       = \<lparr> vx = 0, vy = - 0.981, vz = - 42.5 \<rparr>"
proof -
  let ?s = "newPhysicsEngine\<lparr> lastControlInput := emptyInput\<lparr> thrust := Num 1 \<rparr> \<rparr>"
  let ?sys = "initialSystemStates\<lparr> propulsion := \<lparr> plasmaRate = 1, coilTemp = 0.3, antiGravity = 1 \<rparr> \<rparr>"
  have h1: "velocity ?s = zeroVector"
    by (simp add: newPhysicsEngine_def)
  have h2: "thrust (lastControlInput ?s) = Num 1"
    by simp
  have h3: "plasmaRate (propulsion ?sys) = 1" and h4: "antiGravity (propulsion ?sys) = 1"
    by simp_all
  have h5: "quat_norm (rotation initialCraftTransform) = 1"
    by (simp add: initialCraftTransform_def quat_norm_def quat_sqlen_def)
  have fwd: "getForwardVector initialCraftTransform = \<lparr> vx = 0, vy = 0, vz = - 1 \<rparr>"
    by (simp add: getForwardVector_def vec3_transformQuat_def initialCraftTransform_def)
  show ?thesis
    using h1 h5 thrust_from_rest [OF h1 h2 h3 h4 h5, of 0]
    by (simp add: Let_def fwd)
qed

section \<open>Resizing\<close>

lemma update16:
  "[a0, a1, a2, a3, a4, a5, a6, a7, a8, a9, a10, a11, a12, a13, a14, a15]
     [0 := b0, 5 := b5, 10 := b10, 11 := b11, 14 := b14]
   = [b0, a1, a2, a3, a4, b5, a6, a7, a8, a9, b10, b11, a12, a13, b14, a15]"
  by (simp add: numeral_eq_Suc)

lemma replicate16: "replicate 16 z = [z, z, z, z, z, z, z, z, z, z, z, z, z, z, z, z]"
  by (simp add: numeral_eq_Suc)

lemma updateViewport_projection:
  assumes "length (projectionMatrix re) = 16"
  shows "projectionMatrix (updateViewport cv w h re) =
     [tan (pi * 0.5 - 0.5 * (pi / 4)) / (real (canvasWidth cv) / real (canvasHeight cv)), 0, 0, 0,
      0, tan (pi * 0.5 - 0.5 * (pi / 4)), 0, 0,
      0, 0, (0.1 + 1000) * (1 / (0.1 - 1000)), - 1,
      0, 0, 0.1 * 1000 * (1 / (0.1 - 1000)) * 2, 0]"
  unfolding updateViewport_def updateProjectionMatrix_def Let_def fill0_def
  by (simp add: assms replicate16 update16)

lemma render_projection: "projectionMatrix (render dt t tr sys re) = projectionMatrix re"
  by (simp add: render_def Let_def split: option.splits)

lemma engineRender_frame:
  assumes "renderEngine g = Some re"
  shows "canvas (engineRender t t' now g) = canvas g
       \<and> (\<exists>re'. renderEngine (engineRender t t' now g) = Some re'
              \<and> projectionMatrix re' = projectionMatrix re)"
  using assms
  by (simp add: engineRender_def Let_def render_projection split_def)

lemma resizeCanvas_canvas:
  "canvas (resizeCanvas w h 1 g) = \<lparr> canvasWidth = w, canvasHeight = h \<rparr>"
  by (cases "canvas g") (auto simp add: resizeCanvas_def Let_def)

lemma resizeCanvas_engine:
  assumes "renderEngine g = Some re" and "length (projectionMatrix re) = 16"
  shows "\<exists>re'. renderEngine (resizeCanvas w h 1 g) = Some re'
            \<and> length (projectionMatrix re') = 16"
  using assms
  by (auto simp add: resizeCanvas_def Let_def updateViewport_projection)

lemma resizeCanvas_changed:
  assumes "renderEngine g = Some re" and "length (projectionMatrix re) = 16"
    and "canvas g \<noteq> \<lparr> canvasWidth = w, canvasHeight = h \<rparr>"
  shows "map_option projectionMatrix (renderEngine (resizeCanvas w h 1 g)) =
     Some [tan (pi * 0.5 - 0.5 * (pi / 4)) / (real w / real h), 0, 0, 0,
           0, tan (pi * 0.5 - 0.5 * (pi / 4)), 0, 0,
           0, 0, (0.1 + 1000) * (1 / (0.1 - 1000)), - 1,
           0, 0, 0.1 * 1000 * (1 / (0.1 - 1000)) * 2, 0]"
proof -
  have differs: "real (canvasWidth (canvas g)) \<noteq> real w \<or> real (canvasHeight (canvas g)) \<noteq> real h"
    using assms(3) by (cases "canvas g") auto
  show ?thesis
    using assms(1) differs
    by (auto simp add: resizeCanvas_def Let_def updateViewport_projection assms(2))
qed

lemma tan_fov_pos: "0 < tan (pi * 0.5 - 0.5 * (pi / 4))"
  by (rule tan_gt_zero) simp_all

text \<open>
  C9, as stated (each resize recomputes the projection matrix from the new viewport
  dimensions), fails for \<open>updateViewport\<close>: the aspect ratio is read from the canvas,
  not from the arguments. On a canvas of 300 by 150, \<open>updateViewport(800, 600)\<close>
  followed by \<open>updateViewport(1920, 1080)\<close> sets the viewport to 1920 by 1080 and
  leaves the first entry of the projection matrix at \<open>f / 2\<close>, which is not
  \<open>f / (1920 / 1080)\<close>.
\<close>

theorem updateViewport_ignores_arguments_counterexample:
  "viewport (gl (updateViewport \<lparr> canvasWidth = 300, canvasHeight = 150 \<rparr> 1920 1080
      (updateViewport \<lparr> canvasWidth = 300, canvasHeight = 150 \<rparr> 800 600
         (newRenderEngine newContext)))) = (0, 0, 1920, 1080)
   \<and> projectionMatrix (updateViewport \<lparr> canvasWidth = 300, canvasHeight = 150 \<rparr> 1920 1080
      (updateViewport \<lparr> canvasWidth = 300, canvasHeight = 150 \<rparr> 800 600
         (newRenderEngine newContext))) ! 0 = tan (pi * 0.5 - 0.5 * (pi / 4)) / 2
   \<and> projectionMatrix (updateViewport \<lparr> canvasWidth = 300, canvasHeight = 150 \<rparr> 1920 1080
      (updateViewport \<lparr> canvasWidth = 300, canvasHeight = 150 \<rparr> 800 600
         (newRenderEngine newContext))) ! 0 \<noteq> tan (pi * 0.5 - 0.5 * (pi / 4)) / (1920 / 1080)"
proof -
  let ?cv = "\<lparr> canvasWidth = 300, canvasHeight = 150 \<rparr>"
  let ?re = "updateViewport ?cv 800 600 (newRenderEngine newContext)"
  have len: "length (projectionMatrix ?re) = 16"
    by (simp add: updateViewport_projection newRenderEngine_def)
  have vp: "viewport (gl (updateViewport ?cv 1920 1080 ?re)) = (0, 0, 1920, 1080)"
    by (simp add: updateViewport_def updateProjectionMatrix_def Let_def)
  have first: "projectionMatrix (updateViewport ?cv 1920 1080 ?re) ! 0
                 = tan (pi * 0.5 - 0.5 * (pi / 4)) / 2"
    by (simp add: updateViewport_projection [OF len])
  have "tan (pi * 0.5 - 0.5 * (pi / 4)) / 2 \<noteq> tan (pi * 0.5 - 0.5 * (pi / 4)) / (1920 / 1080)"
    using tan_fov_pos by simp
  then show ?thesis
    using vp first by simp
qed

text \<open>
  C9, amended. Each \<open>updateViewport\<close> call recomputes the projection matrix from the
  current width and height of the canvas (its own arguments only set the GL viewport).
  \<open>resizeCanvas\<close> assigns the new size to the canvas before it calls \<open>updateViewport\<close>,
  so after resizing the canvas to 800 by 600 and then to 1920 by 1080 the stored
  projection matrix is the one for the aspect ratio 1920 / 1080, whether or not a
  frame was rendered between the two.
\<close>

theorem resize_projection_follows_canvas:
  assumes "renderEngine g = Some re"
    and "length (projectionMatrix re) = 16"
    and "0 < canvasWidth cv" and "0 < canvasHeight cv"
  shows "(let f = tan (pi * 0.5 - 0.5 * (pi / 4));
              perspective = (\<lambda>aspect.
                [f / aspect, 0, 0, 0,
                 0, f, 0, 0,
                 0, 0, (0.1 + 1000) * (1 / (0.1 - 1000)), - 1,
                 0, 0, 0.1 * 1000 * (1 / (0.1 - 1000)) * 2, 0])
          in projectionMatrix (updateViewport cv w h re) =
               perspective (real (canvasWidth cv) / real (canvasHeight cv))
           \<and> map_option projectionMatrix
               (renderEngine (resizeCanvas 1920 1080 1 (resizeCanvas 800 600 1 g)))
               = Some (perspective (1920 / 1080))
           \<and> map_option projectionMatrix
               (renderEngine (resizeCanvas 1920 1080 1
                  (engineRender t t' now (resizeCanvas 800 600 1 g))))
               = Some (perspective (1920 / 1080)))"
proof -
  let ?g1 = "resizeCanvas 800 600 1 g"
  let ?g2 = "engineRender t t' now ?g1"
  obtain re1 where re1: "renderEngine ?g1 = Some re1" "length (projectionMatrix re1) = 16"
    using resizeCanvas_engine [OF assms(1,2)] by blast
  have cv1: "canvas ?g1 \<noteq> \<lparr> canvasWidth = 1920, canvasHeight = 1080 \<rparr>"
    by (simp add: resizeCanvas_canvas)
  obtain re2 where re2: "renderEngine ?g2 = Some re2" "length (projectionMatrix re2) = 16"
    using engineRender_frame [OF re1(1), of t t' now] re1(2) by auto
  have cv2: "canvas ?g2 \<noteq> \<lparr> canvasWidth = 1920, canvasHeight = 1080 \<rparr>"
    using engineRender_frame [OF re1(1), of t t' now] by (simp add: resizeCanvas_canvas)
  show ?thesis
    unfolding Let_def
    using updateViewport_projection [OF assms(2), of cv w h]
      resizeCanvas_changed [OF re1 cv1] resizeCanvas_changed [OF re2 cv2]
    by simp
qed

theorem resize_projection_follows_canvas_witness:
  "map_option projectionMatrix
     (renderEngine (resizeCanvas 1920 1080 1 (engineRender 16 17 0 (resizeCanvas 800 600 1
        ((newGameEngine \<lparr> canvasWidth = 300, canvasHeight = 150 \<rparr>)
           \<lparr> renderEngine := Some (newRenderEngine newContext), isRunning := True \<rparr>)))))
   = Some [tan (pi * 0.5 - 0.5 * (pi / 4)) / (1920 / 1080), 0, 0, 0,
           0, tan (pi * 0.5 - 0.5 * (pi / 4)), 0, 0,
           0, 0, (0.1 + 1000) * (1 / (0.1 - 1000)), - 1,
           0, 0, 0.1 * 1000 * (1 / (0.1 - 1000)) * 2, 0]"
proof -
  let ?g = "(newGameEngine \<lparr> canvasWidth = 300, canvasHeight = 150 \<rparr>)
              \<lparr> renderEngine := Some (newRenderEngine newContext), isRunning := True \<rparr>"
  let ?cv = "\<lparr> canvasWidth = 1920, canvasHeight = 1080 \<rparr>"
  have h1: "renderEngine ?g = Some (newRenderEngine newContext)"
    by simp
  have h2: "length (projectionMatrix (newRenderEngine newContext)) = 16"
    by (simp add: newRenderEngine_def)
  have h3: "0 < canvasWidth ?cv" and h4: "0 < canvasHeight ?cv"
    by simp_all
  show ?thesis
    using resize_projection_follows_canvas [OF h1 h2 h3 h4, of 1920 1080 16 17 0]
    by (simp add: Let_def)
qed

end
